theory Spec2Isabelle
  imports Main
begin

section \<open>Authorization dependencies of \<open>app/shared/dependencies.py\<close>\<close>

text \<open>
  The module resolves a bearer token to a user (\<open>get_current_user\<close>), offers an optional
  variant (\<open>get_optional_current_user\<close>), gates by legacy numeric role (\<open>require_role\<close>)
  and by granular permission (\<open>require_permission\<close>). Every \<open>raise HTTPException(...)\<close> of
  the source is an \<open>Inl\<close> value here; a returned user is \<open>Inr\<close>.
\<close>

subsection \<open>Data\<close>

text \<open>
  \<open>fastapi.HTTPException\<close>: the fields the module sets. \<open>headers\<close> is \<open>None\<close> unless given.
\<close>

record HTTPException =
  status_code :: int
  detail :: string
  headers :: "(string \<times> string) list option"

text \<open>The constants of \<open>fastapi.status\<close> the module uses.\<close>

definition HTTP_401_UNAUTHORIZED :: int where
  "HTTP_401_UNAUTHORIZED = 401"

definition HTTP_403_FORBIDDEN :: int where
  "HTTP_403_FORBIDDEN = 403"

definition HTTP_500_INTERNAL_SERVER_ERROR :: int where
  "HTTP_500_INTERNAL_SERVER_ERROR = 500"

text \<open>
  The ORM rows, with the columns the module reads. The model classes are imported from
  other modules; only the attributes accessed in this file appear, each taken as a
  non-null column: Python's unbounded \<open>int\<close> is \<open>int\<close>, a flag is \<open>bool\<close>.
\<close>

record User =
  User_id :: int
  User_role :: int
  User_is_active :: bool

record PermissionTemplate =
  PermissionTemplate_id :: int
  PermissionTemplate_role_name :: string
  PermissionTemplate_is_active :: bool

record Permission =
  Permission_id :: int
  Permission_entity :: string
  Permission_action :: string

record PermissionTemplateItem =
  PermissionTemplateItem_template_id :: int
  PermissionTemplateItem_permission_id :: int
  PermissionTemplateItem_permission_level :: int

text \<open>
  The database session: one list of rows per table, in the order the database returns
  them. \<open>db.query(T).filter(P).first()\<close> is the first row satisfying \<open>P\<close>, or \<open>None\<close>.
  The module only queries; it never adds, deletes or commits.
\<close>

record Session =
  users :: "User list"
  permission_templates :: "PermissionTemplate list"
  permissions :: "Permission list"
  permission_template_items :: "PermissionTemplateItem list"

definition first :: "('a \<Rightarrow> bool) \<Rightarrow> 'a list \<Rightarrow> 'a option" where
  "first P rows = List.find P rows"

text \<open>
  \<open>jose.JWTError\<close>, and the decoded claims of a token as a dictionary. The call
  \<open>jwt.decode(token, SECRET_KEY, algorithms=[ALGORITHM])\<close> belongs to the \<open>jose\<close> library:
  it is a parameter \<open>decode\<close> of the model, returning the payload or raising \<open>JWTError\<close>.
\<close>

datatype JWTError = JWTError

type_synonym payload = "string \<rightharpoonup> int"

type_synonym jwt_decode = "string \<Rightarrow> JWTError + payload"

subsection \<open>Formatting integers in f-strings\<close>

text \<open>Python's \<open>str\<close> on an \<open>int\<close>: decimal digits, with a leading minus sign.\<close>

definition digit_char :: "nat \<Rightarrow> char" where
  "digit_char d = char_of (48 + d)"

function str_nat :: "nat \<Rightarrow> string" where
  "str_nat n = (if n < 10 then [digit_char n] else str_nat (n div 10) @ [digit_char (n mod 10)])"
  by pat_completeness auto
termination
  by (relation "measure id") auto

declare str_nat.simps [simp del]

definition str_int :: "int \<Rightarrow> string" where
  "str_int i = (if i < 0 then CHR ''-'' # str_nat (nat (- i)) else str_nat (nat i))"

subsection \<open>Authentication\<close>

definition credentials_exception :: HTTPException where
  "credentials_exception =
     \<lparr>status_code = HTTP_401_UNAUTHORIZED,
      detail = ''No se pudieron validar las credenciales'',
      headers = Some [(''WWW-Authenticate'', ''Bearer'')]\<rparr>"

definition inactive_user :: HTTPException where
  "inactive_user =
     \<lparr>status_code = HTTP_403_FORBIDDEN, detail = ''Usuario inactivo'', headers = None\<rparr>"

text \<open>The query \<open>db.query(User).filter(User.id == user_id).first()\<close>.\<close>

definition user_query :: "Session \<Rightarrow> int \<Rightarrow> User option" where
  "user_query db user_id = first (\<lambda>u. User_id u = user_id) (users db)"

text \<open>
  \<open>get_current_user\<close>: decode the token (a \<open>JWTError\<close> becomes the credentials exception),
  read the claim \<open>sub\<close> (\<open>payload.get\<close> gives \<open>None\<close> when it is absent), look the user up by
  id, and refuse an inactive user.
\<close>

definition get_current_user :: "jwt_decode \<Rightarrow> Session \<Rightarrow> string \<Rightarrow> HTTPException + User" where
  "get_current_user decode db token =
     (case decode token of
        Inl JWTError \<Rightarrow> Inl credentials_exception
      | Inr payload \<Rightarrow>
          (case payload ''sub'' of
             None \<Rightarrow> Inl credentials_exception
           | Some user_id \<Rightarrow>
               (case user_query db user_id of
                  None \<Rightarrow> Inl credentials_exception
                | Some user \<Rightarrow>
                    if \<not> User_is_active user
                    then Inl inactive_user
                    else Inr user)))"

text \<open>
  \<open>oauth2_scheme = OAuth2PasswordBearer(tokenUrl="token")\<close>. The class belongs to
  FastAPI; called as a dependency it reads the \<open>Authorization\<close> header of the request
  (\<open>None\<close> when the request has none), splits it at the first space into scheme and
  parameter, and returns the parameter when the scheme is \<open>bearer\<close> in any letter case.
  Otherwise it raises 401 when \<open>auto_error\<close> is set and returns \<open>None\<close> when it is not.
  The source leaves \<open>auto_error\<close> at its default, \<open>True\<close>. Of \<open>str.lower\<close> only the
  letters A to Z matter for the comparison with \<open>bearer\<close>.
\<close>

definition not_authenticated :: HTTPException where
  "not_authenticated =
     \<lparr>status_code = HTTP_401_UNAUTHORIZED,
      detail = ''Not authenticated'',
      headers = Some [(''WWW-Authenticate'', ''Bearer'')]\<rparr>"

definition lower_char :: "char \<Rightarrow> char" where
  "lower_char c =
     (case map_of (zip ''ABCDEFGHIJKLMNOPQRSTUVWXYZ'' ''abcdefghijklmnopqrstuvwxyz'') c of
        None \<Rightarrow> c
      | Some l \<Rightarrow> l)"

definition get_authorization_scheme_param :: "string \<Rightarrow> string \<times> string" where
  "get_authorization_scheme_param authorization =
     (takeWhile (\<lambda>c. c \<noteq> CHR '' '') authorization,
      drop 1 (dropWhile (\<lambda>c. c \<noteq> CHR '' '') authorization))"

definition OAuth2PasswordBearer :: "bool \<Rightarrow> string option \<Rightarrow> HTTPException + string option" where
  "OAuth2PasswordBearer auto_error authorization =
     (case authorization of
        None \<Rightarrow> if auto_error then Inl not_authenticated else Inr None
      | Some v \<Rightarrow>
          (case get_authorization_scheme_param v of
             (scheme, param) \<Rightarrow>
               if v = [] then (if auto_error then Inl not_authenticated else Inr None)
               else if map lower_char scheme = ''bearer'' then Inr (Some param)
               else (if auto_error then Inl not_authenticated else Inr None)))"

definition oauth2_scheme :: "string option \<Rightarrow> HTTPException + string option" where
  "oauth2_scheme = OAuth2PasswordBearer True"

text \<open>
  \<open>get_optional_current_user\<close>, as FastAPI serves it. Its parameter is declared
  \<open>token: Optional[str] = Depends(oauth2_scheme)\<close>, so the framework first calls
  \<open>oauth2_scheme\<close> on the request; an exception raised there ends the request and the
  body does not run. In the body \<open>not token\<close> holds for \<open>None\<close> and for the empty string,
  and the \<open>try\<close> turns every \<open>HTTPException\<close> of \<open>get_current_user\<close> into \<open>None\<close>.
  The third argument is the \<open>Authorization\<close> header of the request.
\<close>

definition get_optional_current_user ::
  "jwt_decode \<Rightarrow> Session \<Rightarrow> string option \<Rightarrow> HTTPException + User option" where
  "get_optional_current_user decode db authorization =
     (case oauth2_scheme authorization of
        Inl e \<Rightarrow> Inl e
      | Inr token \<Rightarrow>
          (case token of
             None \<Rightarrow> Inr None
           | Some t \<Rightarrow>
               if t = [] then Inr None
               else (case get_current_user decode db t of
                       Inl e \<Rightarrow> Inr None
                     | Inr user \<Rightarrow> Inr (Some user))))"

subsection \<open>Authorization by role\<close>

text \<open>
  \<open>require_role(minimum_role)\<close> returns the closure \<open>role_checker\<close>; the closure's free
  variable is the first argument here.
\<close>

definition role_too_low :: "int \<Rightarrow> HTTPException" where
  "role_too_low minimum_role =
     \<lparr>status_code = HTTP_403_FORBIDDEN,
      detail = ''Se requiere rol de nivel '' @ str_int minimum_role @ '' o superior'',
      headers = None\<rparr>"

definition role_checker :: "int \<Rightarrow> User \<Rightarrow> HTTPException + User" where
  "role_checker minimum_role current_user =
     (if User_role current_user > minimum_role
      then Inl (role_too_low minimum_role)
      else Inr current_user)"

definition require_role :: "int \<Rightarrow> User \<Rightarrow> HTTPException + User" where
  "require_role minimum_role = role_checker minimum_role"

definition require_admin :: "User \<Rightarrow> HTTPException + User" where
  "require_admin = require_role 1"

definition require_manager :: "User \<Rightarrow> HTTPException + User" where
  "require_manager = require_role 2"

definition require_employee :: "User \<Rightarrow> HTTPException + User" where
  "require_employee = require_role 3"

definition require_any_user :: "User \<Rightarrow> HTTPException + User" where
  "require_any_user = require_role 5"

subsection \<open>Authorization by granular permission\<close>

text \<open>The dictionary \<open>role_mapping\<close> of \<open>permission_checker\<close>; \<open>.get\<close> is the map lookup.\<close>

definition role_mapping :: "int \<rightharpoonup> string" where
  "role_mapping =
     [1 \<mapsto> ''Admin'', 2 \<mapsto> ''Manager'', 3 \<mapsto> ''Collaborator'', 4 \<mapsto> ''Reader'', 5 \<mapsto> ''Guest'']"

text \<open>
  The three queries of \<open>permission_checker\<close>, each ending in \<open>.first()\<close>: the active
  template of a role name, the permission of an (entity, action) pair, and the template
  item binding a template id to a permission id.
\<close>

definition template_query :: "Session \<Rightarrow> string \<Rightarrow> PermissionTemplate option" where
  "template_query db role_name =
     first (\<lambda>t. PermissionTemplate_role_name t = role_name
                 \<and> PermissionTemplate_is_active t = True)
           (permission_templates db)"

definition permission_query :: "Session \<Rightarrow> string \<Rightarrow> string \<Rightarrow> Permission option" where
  "permission_query db entity action =
     first (\<lambda>p. Permission_entity p = entity \<and> Permission_action p = action)
           (permissions db)"

definition template_item_query :: "Session \<Rightarrow> int \<Rightarrow> int \<Rightarrow> PermissionTemplateItem option" where
  "template_item_query db template_id permission_id =
     first (\<lambda>i. PermissionTemplateItem_template_id i = template_id
                 \<and> PermissionTemplateItem_permission_id i = permission_id)
           (permission_template_items db)"

text \<open>
  The exceptions \<open>permission_checker\<close> raises, one per step. The two accented letters of
  the Spanish messages are written by code point (\<open>0xE1\<close>, \<open>0xF3\<close>).
\<close>

definition invalid_role :: "int \<Rightarrow> HTTPException" where
  "invalid_role role =
     \<lparr>status_code = HTTP_403_FORBIDDEN,
      detail = ''Rol de usuario inv'' @ [CHR 0xE1] @ ''lido: '' @ str_int role,
      headers = None\<rparr>"

definition no_template_for_role :: "string \<Rightarrow> HTTPException" where
  "no_template_for_role role_name =
     \<lparr>status_code = HTTP_403_FORBIDDEN,
      detail = ''No se encontr'' @ [CHR 0xF3] @ '' configuraci'' @ [CHR 0xF3]
               @ ''n de permisos para el rol '' @ role_name,
      headers = None\<rparr>"

definition permission_not_registered :: "string \<Rightarrow> string \<Rightarrow> HTTPException" where
  "permission_not_registered entity action =
     \<lparr>status_code = HTTP_500_INTERNAL_SERVER_ERROR,
      detail = ''Permiso no configurado: '' @ entity @ '':'' @ action,
      headers = None\<rparr>"

definition role_lacks_permission :: "string \<Rightarrow> string \<Rightarrow> string \<Rightarrow> HTTPException" where
  "role_lacks_permission role_name entity action =
     \<lparr>status_code = HTTP_403_FORBIDDEN,
      detail = ''Tu rol ('' @ role_name @ '') no tiene permiso para: '' @ entity @ '':'' @ action,
      headers = None\<rparr>"

definition insufficient_level :: "int \<Rightarrow> int \<Rightarrow> HTTPException" where
  "insufficient_level min_level permission_level =
     \<lparr>status_code = HTTP_403_FORBIDDEN,
      detail = ''Nivel de permiso insuficiente. Requiere nivel '' @ str_int min_level
               @ '', tienes nivel '' @ str_int permission_level,
      headers = None\<rparr>"

text \<open>
  \<open>permission_checker\<close>, the closure returned by \<open>require_permission(entity, action,
  min_level)\<close>; its free variables are the first three arguments. The five steps and
  their order are the source's. Each \<open>if not x\<close> of the source tests for \<open>None\<close>: the
  names in \<open>role_mapping\<close> are non-empty strings, and an ORM row is truthy.
\<close>

definition permission_checker ::
  "string \<Rightarrow> string \<Rightarrow> int \<Rightarrow> User \<Rightarrow> Session \<Rightarrow> HTTPException + User" where
  "permission_checker entity action min_level current_user db =
     (case role_mapping (User_role current_user) of
        None \<Rightarrow> Inl (invalid_role (User_role current_user))
      | Some role_name \<Rightarrow>
          (case template_query db role_name of
             None \<Rightarrow> Inl (no_template_for_role role_name)
           | Some template \<Rightarrow>
               (case permission_query db entity action of
                  None \<Rightarrow> Inl (permission_not_registered entity action)
                | Some permission \<Rightarrow>
                    (case template_item_query db (PermissionTemplate_id template)
                                                 (Permission_id permission) of
                       None \<Rightarrow> Inl (role_lacks_permission role_name entity action)
                     | Some template_item \<Rightarrow>
                         if PermissionTemplateItem_permission_level template_item < min_level
                         then Inl (insufficient_level min_level
                                     (PermissionTemplateItem_permission_level template_item))
                         else Inr current_user))))"

definition require_permission ::
  "string \<Rightarrow> string \<Rightarrow> int \<Rightarrow> User \<Rightarrow> Session \<Rightarrow> HTTPException + User" where
  "require_permission entity action min_level = permission_checker entity action min_level"

subsection \<open>Error kinds of the specification\<close>

text \<open>
  The specification names three error kinds. The module has one exception class, so a
  kind is read off the HTTP status the exception carries: \<open>Unauthenticated\<close> is 401,
  \<open>Forbidden\<close> is 403, and \<open>ConfigurationError\<close> is a server-side status (5xx).
\<close>

definition is_Unauthenticated :: "HTTPException \<Rightarrow> bool" where
  "is_Unauthenticated e = (status_code e = 401)"

definition is_Forbidden :: "HTTPException \<Rightarrow> bool" where
  "is_Forbidden e = (status_code e = 403)"

definition is_ConfigurationError :: "HTTPException \<Rightarrow> bool" where
  "is_ConfigurationError e = (500 \<le> status_code e \<and> status_code e \<le> 599)"

subsection \<open>Checks run against the persisted state\<close>

text \<open>
  \<open>permission_checker\<close> once more, with the session as the object the source holds: a
  state of any type, reached only through the three queries the closure issues. A query
  takes the session and hands back its answer together with the session after the call,
  which may differ; the closure passes that session on to its next call, in the
  source's order. What the queries do is a parameter.
\<close>

record 's Session_queries =
  first_template :: "string \<Rightarrow> 's \<Rightarrow> PermissionTemplate option \<times> 's"
  first_permission :: "string \<Rightarrow> string \<Rightarrow> 's \<Rightarrow> Permission option \<times> 's"
  first_template_item :: "int \<Rightarrow> int \<Rightarrow> 's \<Rightarrow> PermissionTemplateItem option \<times> 's"

definition permission_checker_on ::
  "'s Session_queries \<Rightarrow> string \<Rightarrow> string \<Rightarrow> int \<Rightarrow> User \<Rightarrow> 's
   \<Rightarrow> (HTTPException + User) \<times> 's" where
  "permission_checker_on q entity action min_level current_user db =
     (case role_mapping (User_role current_user) of
        None \<Rightarrow> (Inl (invalid_role (User_role current_user)), db)
      | Some role_name \<Rightarrow>
          (case first_template q role_name db of
             (None, db1) \<Rightarrow> (Inl (no_template_for_role role_name), db1)
           | (Some template, db1) \<Rightarrow>
               (case first_permission q entity action db1 of
                  (None, db2) \<Rightarrow> (Inl (permission_not_registered entity action), db2)
                | (Some permission, db2) \<Rightarrow>
                    (case first_template_item q (PermissionTemplate_id template)
                                                (Permission_id permission) db2 of
                       (None, db3) \<Rightarrow>
                         (Inl (role_lacks_permission role_name entity action), db3)
                     | (Some template_item, db3) \<Rightarrow>
                         (if PermissionTemplateItem_permission_level template_item < min_level
                          then Inl (insufficient_level min_level
                                      (PermissionTemplateItem_permission_level template_item))
                          else Inr current_user,
                          db3)))))"

text \<open>
  A Check is either closure, with the values it was built from. \<open>role_checker\<close> is given
  the principal only and never sees the session; \<open>permission_checker\<close> is given both.
\<close>

datatype Check = Role_Check int | Permission_Check string string int

fun run_check ::
  "'s Session_queries \<Rightarrow> Check \<Rightarrow> User \<Rightarrow> 's \<Rightarrow> (HTTPException + User) \<times> 's" where
  "run_check q (Role_Check minimum_role) current_user db =
     (role_checker minimum_role current_user, db)"
| "run_check q (Permission_Check entity action min_level) current_user db =
     permission_checker_on q entity action min_level current_user db"

text \<open>
  The queries over the tables of \<open>Session\<close>: each is the \<open>.first()\<close> query of the source,
  a read that leaves the tables as they are.
\<close>

definition table_queries :: "Session Session_queries" where
  "table_queries =
     \<lparr>first_template = (\<lambda>role_name db. (template_query db role_name, db)),
      first_permission = (\<lambda>entity action db. (permission_query db entity action, db)),
      first_template_item =
        (\<lambda>template_id permission_id db.
           (template_item_query db template_id permission_id, db))\<rparr>"

text \<open>
  For contrast, queries of which the last one is not a read: it answers like
  \<open>table_queries\<close> and then empties the table of template items.
\<close>

definition consuming_queries :: "Session Session_queries" where
  "consuming_queries =
     table_queries
       \<lparr>first_template_item :=
          (\<lambda>template_id permission_id db.
             (template_item_query db template_id permission_id,
              db\<lparr>permission_template_items := []\<rparr>))\<rparr>"

subsection \<open>A sample database\<close>

text \<open>
  Users 7 (Manager), 8 (role 99, unmapped), 9 (Guest), 10 (Admin, inactive), 11 (role 0)
  and 12 (Reader, whose template is inactive); a Manager binding at level 2 and a Guest
  binding at level 0.
\<close>

definition user7 :: User where
  "user7 = \<lparr>User_id = 7, User_role = 2, User_is_active = True\<rparr>"

definition user8 :: User where
  "user8 = \<lparr>User_id = 8, User_role = 99, User_is_active = True\<rparr>"

definition user9 :: User where
  "user9 = \<lparr>User_id = 9, User_role = 5, User_is_active = True\<rparr>"

definition user10 :: User where
  "user10 = \<lparr>User_id = 10, User_role = 1, User_is_active = False\<rparr>"

definition user11 :: User where
  "user11 = \<lparr>User_id = 11, User_role = 0, User_is_active = True\<rparr>"

definition user12 :: User where
  "user12 = \<lparr>User_id = 12, User_role = 4, User_is_active = True\<rparr>"

definition manager_template :: PermissionTemplate where
  "manager_template =
     \<lparr>PermissionTemplate_id = 2, PermissionTemplate_role_name = ''Manager'',
      PermissionTemplate_is_active = True\<rparr>"

definition guest_template :: PermissionTemplate where
  "guest_template =
     \<lparr>PermissionTemplate_id = 5, PermissionTemplate_role_name = ''Guest'',
      PermissionTemplate_is_active = True\<rparr>"

definition invoices_update :: Permission where
  "invoices_update =
     \<lparr>Permission_id = 10, Permission_entity = ''invoices'', Permission_action = ''update''\<rparr>"

definition users_delete :: Permission where
  "users_delete =
     \<lparr>Permission_id = 11, Permission_entity = ''users'', Permission_action = ''delete''\<rparr>"

definition reports_view :: Permission where
  "reports_view =
     \<lparr>Permission_id = 12, Permission_entity = ''reports'', Permission_action = ''view''\<rparr>"

definition manager_invoices_update :: PermissionTemplateItem where
  "manager_invoices_update =
     \<lparr>PermissionTemplateItem_template_id = 2, PermissionTemplateItem_permission_id = 10,
      PermissionTemplateItem_permission_level = 2\<rparr>"

definition guest_reports_view :: PermissionTemplateItem where
  "guest_reports_view =
     \<lparr>PermissionTemplateItem_template_id = 5, PermissionTemplateItem_permission_id = 12,
      PermissionTemplateItem_permission_level = 0\<rparr>"

definition sample_db :: Session where
  "sample_db =
     \<lparr>users = [user7, user8, user9, user10, user11, user12],
      permission_templates =
        [\<lparr>PermissionTemplate_id = 4, PermissionTemplate_role_name = ''Reader'',
          PermissionTemplate_is_active = False\<rparr>,
         manager_template, guest_template],
      permissions = [invoices_update, users_delete, reports_view],
      permission_template_items = [manager_invoices_update, guest_reports_view]\<rparr>"

text \<open>
  A sample decoder: the token \<open>t7\<close> carries \<open>sub = 7\<close>, and so on; \<open>t99\<close> names a user
  that does not exist, \<open>nosub\<close> decodes to a payload without \<open>sub\<close>, and anything else
  is rejected by the library.
\<close>

definition sample_decode :: jwt_decode where
  "sample_decode token =
     (if token = ''t7'' then Inr [''sub'' \<mapsto> 7]
      else if token = ''t8'' then Inr [''sub'' \<mapsto> 8]
      else if token = ''t9'' then Inr [''sub'' \<mapsto> 9]
      else if token = ''t10'' then Inr [''sub'' \<mapsto> 10]
      else if token = ''t11'' then Inr [''sub'' \<mapsto> 11]
      else if token = ''t12'' then Inr [''sub'' \<mapsto> 12]
      else if token = ''t99'' then Inr [''sub'' \<mapsto> 99]
      else if token = ''nosub'' then Inr [''exp'' \<mapsto> 0]
      else Inl JWTError)"

section \<open>Auxiliary facts\<close>

lemma str_int_1: "str_int 1 = ''1''"
  by code_simp

lemma str_int_2: "str_int 2 = ''2''"
  by code_simp

lemma str_int_3: "str_int 3 = ''3''"
  by code_simp

lemma str_int_99: "str_int 99 = ''99''"
  by code_simp

lemmas sample_defs =
  sample_db_def sample_decode_def user7_def user8_def user9_def user10_def user11_def
  user12_def manager_template_def guest_template_def invoices_update_def users_delete_def
  reports_view_def manager_invoices_update_def guest_reports_view_def

lemmas query_defs = first_def user_query_def template_query_def permission_query_def template_item_query_def

text \<open>A header \<open>Bearer t\<close> passes \<open>oauth2_scheme\<close>, which hands on \<open>t\<close>.\<close>

lemma oauth2_scheme_Bearer: "oauth2_scheme (Some (''Bearer '' @ t)) = Inr (Some t)"
  by (simp add: oauth2_scheme_def OAuth2PasswordBearer_def get_authorization_scheme_param_def
      lower_char_def)


text \<open>The sample tokens resolve as described.\<close>

lemma resolve_t7: "get_current_user sample_decode sample_db ''t7'' = Inr user7"
  by (simp add: get_current_user_def sample_defs query_defs)

lemma resolve_t8: "get_current_user sample_decode sample_db ''t8'' = Inr user8"
  by (simp add: get_current_user_def sample_defs query_defs)

lemma resolve_t9: "get_current_user sample_decode sample_db ''t9'' = Inr user9"
  by (simp add: get_current_user_def sample_defs query_defs)

lemma resolve_t11: "get_current_user sample_decode sample_db ''t11'' = Inr user11"
  by (simp add: get_current_user_def sample_defs query_defs)

lemma resolve_t12: "get_current_user sample_decode sample_db ''t12'' = Inr user12"
  by (simp add: get_current_user_def sample_defs query_defs)

section \<open>Claims\<close>

text \<open>
  C5. For every \<open>minimum_role\<close> and every resolved active principal, the Check built by
  \<open>require_role minimum_role\<close> fails with Forbidden exactly when the principal's role is
  greater than \<open>minimum_role\<close>, and otherwise returns the same principal.
\<close>

theorem require_role_accepts_iff:
  assumes "get_current_user decode db token = Inr u"
  shows "(minimum_role < User_role u \<longrightarrow>
            require_role minimum_role u = Inl (role_too_low minimum_role)
            \<and> is_Forbidden (role_too_low minimum_role))
       \<and> (User_role u \<le> minimum_role \<longrightarrow> require_role minimum_role u = Inr u)
       \<and> ((\<exists>e. require_role minimum_role u = Inl e) \<longleftrightarrow> minimum_role < User_role u)"
  by (simp add: require_role_def role_checker_def role_too_low_def is_Forbidden_def
      HTTP_403_FORBIDDEN_def)

theorem require_role_accepts_iff_witness:
  "get_current_user sample_decode sample_db ''t7'' = Inr user7
   \<and> (1::int) < User_role user7
   \<and> require_role 1 user7 = Inl (role_too_low 1)
   \<and> detail (role_too_low 1) = ''Se requiere rol de nivel 1 o superior''
   \<and> User_role user7 \<le> 2
   \<and> require_role 2 user7 = Inr user7
   \<and> require_manager user7 = Inr user7"
  using require_role_accepts_iff [OF resolve_t7, of 1] require_role_accepts_iff [OF resolve_t7, of 2]
  by (simp add: resolve_t7 user7_def role_too_low_def str_int_1 require_manager_def)

text \<open>
  C1. For every resolved active principal whose role maps to an active template that
  has a binding for the registered permission at level \<open>L\<close>: the Check built by
  \<open>require_permission\<close> with \<open>min_level \<le> L\<close> returns the principal unchanged, and with
  \<open>min_level > L\<close> it fails with Forbidden, the message naming both \<open>min_level\<close> and \<open>L\<close>.
\<close>

theorem require_permission_level_check:
  assumes "get_current_user decode db token = Inr u"
    and "role_mapping (User_role u) = Some role_name"
    and "template_query db role_name = Some template"
    and "permission_query db entity action = Some permission"
    and "template_item_query db (PermissionTemplate_id template) (Permission_id permission)
         = Some template_item"
    and "PermissionTemplateItem_permission_level template_item = L"
  shows "(min_level \<le> L \<longrightarrow> require_permission entity action min_level u db = Inr u)
       \<and> (L < min_level \<longrightarrow>
            require_permission entity action min_level u db = Inl (insufficient_level min_level L)
            \<and> is_Forbidden (insufficient_level min_level L)
            \<and> detail (insufficient_level min_level L)
              = ''Nivel de permiso insuficiente. Requiere nivel '' @ str_int min_level
                @ '', tienes nivel '' @ str_int L)"
  using assms(2-6)
  by (simp add: require_permission_def permission_checker_def insufficient_level_def
      is_Forbidden_def HTTP_403_FORBIDDEN_def)

theorem require_permission_level_check_witness:
  "get_current_user sample_decode sample_db ''t7'' = Inr user7
   \<and> role_mapping (User_role user7) = Some ''Manager''
   \<and> template_query sample_db ''Manager'' = Some manager_template
   \<and> permission_query sample_db ''invoices'' ''update'' = Some invoices_update
   \<and> template_item_query sample_db (PermissionTemplate_id manager_template)
        (Permission_id invoices_update) = Some manager_invoices_update
   \<and> PermissionTemplateItem_permission_level manager_invoices_update = 2
   \<and> require_permission ''invoices'' ''update'' 2 user7 sample_db = Inr user7
   \<and> require_permission ''invoices'' ''update'' 3 user7 sample_db = Inl (insufficient_level 3 2)
   \<and> detail (insufficient_level 3 2)
     = ''Nivel de permiso insuficiente. Requiere nivel 3, tienes nivel 2''"
proof -
  have role: "role_mapping (User_role user7) = Some ''Manager''"
    by (simp add: role_mapping_def user7_def)
  have template: "template_query sample_db ''Manager'' = Some manager_template"
    by (simp add: query_defs sample_defs)
  have permission: "permission_query sample_db ''invoices'' ''update'' = Some invoices_update"
    by (simp add: query_defs sample_defs)
  have item: "template_item_query sample_db (PermissionTemplate_id manager_template)
                (Permission_id invoices_update) = Some manager_invoices_update"
    by (simp add: query_defs sample_defs)
  have level: "PermissionTemplateItem_permission_level manager_invoices_update = 2"
    by (simp add: manager_invoices_update_def)
  note check = require_permission_level_check [OF resolve_t7 role template permission item level]
  from check [of 2] check [of 3] resolve_t7 role template permission item level
  show ?thesis
    by (simp add: str_int_2 str_int_3)
qed

text \<open>
  C4. For every resolved active principal whose role maps to an active template, and
  every registered permission for which that template has no binding, the Check fails
  with Forbidden (the role lacks the permission), not with a configuration error.
\<close>

theorem require_permission_no_binding:
  assumes "get_current_user decode db token = Inr u"
    and "role_mapping (User_role u) = Some role_name"
    and "template_query db role_name = Some template"
    and "permission_query db entity action = Some permission"
    and "template_item_query db (PermissionTemplate_id template) (Permission_id permission)
         = None"
  shows "require_permission entity action min_level u db
           = Inl (role_lacks_permission role_name entity action)
       \<and> is_Forbidden (role_lacks_permission role_name entity action)
       \<and> \<not> is_ConfigurationError (role_lacks_permission role_name entity action)"
  using assms(2-5)
  by (simp add: require_permission_def permission_checker_def role_lacks_permission_def
      is_Forbidden_def is_ConfigurationError_def HTTP_403_FORBIDDEN_def)

theorem require_permission_no_binding_witness:
  "get_current_user sample_decode sample_db ''t9'' = Inr user9
   \<and> role_mapping (User_role user9) = Some ''Guest''
   \<and> template_query sample_db ''Guest'' = Some guest_template
   \<and> permission_query sample_db ''users'' ''delete'' = Some users_delete
   \<and> template_item_query sample_db (PermissionTemplate_id guest_template)
        (Permission_id users_delete) = None
   \<and> require_permission ''users'' ''delete'' 1 user9 sample_db
     = Inl (role_lacks_permission ''Guest'' ''users'' ''delete'')
   \<and> status_code (role_lacks_permission ''Guest'' ''users'' ''delete'') = 403
   \<and> detail (role_lacks_permission ''Guest'' ''users'' ''delete'')
     = ''Tu rol (Guest) no tiene permiso para: users:delete''"
proof -
  have role: "role_mapping (User_role user9) = Some ''Guest''"
    by (simp add: role_mapping_def user9_def)
  have template: "template_query sample_db ''Guest'' = Some guest_template"
    by (simp add: query_defs sample_defs)
  have permission: "permission_query sample_db ''users'' ''delete'' = Some users_delete"
    by (simp add: query_defs sample_defs)
  have item: "template_item_query sample_db (PermissionTemplate_id guest_template)
                (Permission_id users_delete) = None"
    by (simp add: query_defs sample_defs)
  from require_permission_no_binding [OF resolve_t9 role template permission item, of 1]
    resolve_t9 role template permission item
  show ?thesis
    by (simp add: role_lacks_permission_def HTTP_403_FORBIDDEN_def)
qed

text \<open>
  C10. For a Check built with \<open>min_level = 0\<close>, a resolved active principal whose mapped
  active template has a binding for the registered permission is authorized whatever
  non-negative level the binding has, level 0 (documented as no access) included: the
  comparison is a strict less-than.
\<close>

theorem require_permission_min_level_zero:
  assumes "get_current_user decode db token = Inr u"
    and "role_mapping (User_role u) = Some role_name"
    and "template_query db role_name = Some template"
    and "permission_query db entity action = Some permission"
    and "template_item_query db (PermissionTemplate_id template) (Permission_id permission)
         = Some template_item"
    and "0 \<le> PermissionTemplateItem_permission_level template_item"
  shows "require_permission entity action 0 u db = Inr u"
  using assms(2-6)
  by (simp add: require_permission_def permission_checker_def)

theorem require_permission_min_level_zero_witness:
  "get_current_user sample_decode sample_db ''t9'' = Inr user9
   \<and> role_mapping (User_role user9) = Some ''Guest''
   \<and> template_query sample_db ''Guest'' = Some guest_template
   \<and> permission_query sample_db ''reports'' ''view'' = Some reports_view
   \<and> template_item_query sample_db (PermissionTemplate_id guest_template)
        (Permission_id reports_view) = Some guest_reports_view
   \<and> PermissionTemplateItem_permission_level guest_reports_view = 0
   \<and> require_permission ''reports'' ''view'' 0 user9 sample_db = Inr user9"
proof -
  have role: "role_mapping (User_role user9) = Some ''Guest''"
    by (simp add: role_mapping_def user9_def)
  have template: "template_query sample_db ''Guest'' = Some guest_template"
    by (simp add: query_defs sample_defs)
  have permission: "permission_query sample_db ''reports'' ''view'' = Some reports_view"
    by (simp add: query_defs sample_defs)
  have item: "template_item_query sample_db (PermissionTemplate_id guest_template)
                (Permission_id reports_view) = Some guest_reports_view"
    by (simp add: query_defs sample_defs)
  have level: "PermissionTemplateItem_permission_level guest_reports_view = 0"
    by (simp add: guest_reports_view_def)
  have nonneg: "0 \<le> PermissionTemplateItem_permission_level guest_reports_view"
    by (simp add: level)
  from require_permission_min_level_zero [OF resolve_t9 role template permission item nonneg]
    resolve_t9 role template permission item level
  show ?thesis
    by simp
qed

text \<open>
  C2, as the code has it. For every resolved active principal whose role has no entry
  in \<open>role_mapping\<close>, every Check built by \<open>require_permission\<close> fails with the exception
  of status 403 whose message names the invalid role: the status of the Forbidden kind,
  not a server-side one.
\<close>

theorem require_permission_invalid_role:
  assumes "get_current_user decode db token = Inr u"
    and "role_mapping (User_role u) = None"
  shows "require_permission entity action min_level u db = Inl (invalid_role (User_role u))
       \<and> status_code (invalid_role (User_role u)) = 403
       \<and> is_Forbidden (invalid_role (User_role u))
       \<and> \<not> is_ConfigurationError (invalid_role (User_role u))
       \<and> detail (invalid_role (User_role u))
         = ''Rol de usuario inv'' @ [CHR 0xE1] @ ''lido: '' @ str_int (User_role u)"
  using assms(2)
  by (simp add: require_permission_def permission_checker_def invalid_role_def
      is_Forbidden_def is_ConfigurationError_def HTTP_403_FORBIDDEN_def)

theorem require_permission_invalid_role_witness:
  "get_current_user sample_decode sample_db ''t8'' = Inr user8
   \<and> role_mapping (User_role user8) = None
   \<and> require_permission ''invoices'' ''update'' 1 user8 sample_db = Inl (invalid_role 99)
   \<and> status_code (invalid_role 99) = 403
   \<and> detail (invalid_role 99) = ''Rol de usuario inv'' @ [CHR 0xE1] @ ''lido: 99''"
proof -
  have role: "role_mapping (User_role user8) = None"
    by (simp add: role_mapping_def user8_def)
  from require_permission_invalid_role [OF resolve_t8 role, of "''invoices''" "''update''" 1]
    resolve_t8 role
  show ?thesis
    by (simp add: user8_def str_int_99)
qed

text \<open>
  C2 as written fails: user 8 has the unmapped role 99, and the Check raises
  status 403, which is the Forbidden kind and not a configuration error.
\<close>

theorem invalid_role_is_forbidden_counterexample:
  "get_current_user sample_decode sample_db ''t8'' = Inr user8
   \<and> role_mapping (User_role user8) = None
   \<and> require_permission ''invoices'' ''update'' 1 user8 sample_db = Inl (invalid_role 99)
   \<and> is_Forbidden (invalid_role 99)
   \<and> \<not> is_ConfigurationError (invalid_role 99)"
  by (simp add: resolve_t8 require_permission_def permission_checker_def role_mapping_def
      user8_def invalid_role_def is_Forbidden_def is_ConfigurationError_def
      HTTP_403_FORBIDDEN_def)

text \<open>
  C3, as the code has it. For every (entity, action) pair with no registered Permission
  row, the Check fails for every resolved principal. The permission is looked up third:
  the failure is the server-side error 500 when the principal's role maps to an active
  template, and the 403 of the step that stops the Check before that otherwise.
\<close>

theorem require_permission_not_registered:
  assumes "get_current_user decode db token = Inr u"
    and "permission_query db entity action = None"
  shows "(\<exists>e. require_permission entity action min_level u db = Inl e)
       \<and> (\<forall>role_name template.
            role_mapping (User_role u) = Some role_name
            \<and> template_query db role_name = Some template \<longrightarrow>
            require_permission entity action min_level u db
              = Inl (permission_not_registered entity action)
            \<and> status_code (permission_not_registered entity action) = 500
            \<and> is_ConfigurationError (permission_not_registered entity action)
            \<and> \<not> is_Forbidden (permission_not_registered entity action))
       \<and> (role_mapping (User_role u) = None \<longrightarrow>
            require_permission entity action min_level u db = Inl (invalid_role (User_role u)))
       \<and> (\<forall>role_name.
            role_mapping (User_role u) = Some role_name \<and> template_query db role_name = None \<longrightarrow>
            require_permission entity action min_level u db = Inl (no_template_for_role role_name))"
  using assms(2)
  by (auto simp: require_permission_def permission_checker_def permission_not_registered_def
      is_Forbidden_def is_ConfigurationError_def HTTP_500_INTERNAL_SERVER_ERROR_def
      split: option.splits)

theorem require_permission_not_registered_witness:
  "get_current_user sample_decode sample_db ''t7'' = Inr user7
   \<and> permission_query sample_db ''orders'' ''ship'' = None
   \<and> role_mapping (User_role user7) = Some ''Manager''
   \<and> template_query sample_db ''Manager'' = Some manager_template
   \<and> require_permission ''orders'' ''ship'' 1 user7 sample_db
     = Inl (permission_not_registered ''orders'' ''ship'')
   \<and> status_code (permission_not_registered ''orders'' ''ship'') = 500
   \<and> detail (permission_not_registered ''orders'' ''ship'') = ''Permiso no configurado: orders:ship''
   \<and> get_current_user sample_decode sample_db ''t12'' = Inr user12
   \<and> role_mapping (User_role user12) = Some ''Reader''
   \<and> template_query sample_db ''Reader'' = None
   \<and> require_permission ''orders'' ''ship'' 1 user12 sample_db
     = Inl (no_template_for_role ''Reader'')"
proof -
  have permission: "permission_query sample_db ''orders'' ''ship'' = None"
    by (simp add: query_defs sample_defs)
  have role7: "role_mapping (User_role user7) = Some ''Manager''"
    by (simp add: role_mapping_def user7_def)
  have template7: "template_query sample_db ''Manager'' = Some manager_template"
    by (simp add: query_defs sample_defs)
  have role12: "role_mapping (User_role user12) = Some ''Reader''"
    by (simp add: role_mapping_def user12_def)
  have template12: "template_query sample_db ''Reader'' = None"
    by (simp add: query_defs sample_defs)
  from require_permission_not_registered [OF resolve_t7 permission, of 1]
    require_permission_not_registered [OF resolve_t12 permission, of 1]
    resolve_t7 resolve_t12 permission role7 template7 role12 template12
  show ?thesis
    by (simp add: permission_not_registered_def)
qed

text \<open>
  C3 as written fails: for the unregistered pair (orders, ship) the Check run by
  user 8, whose role 99 is unmapped, stops at the first step with status 403.
\<close>

theorem not_registered_any_principal_counterexample:
  "get_current_user sample_decode sample_db ''t8'' = Inr user8
   \<and> permission_query sample_db ''orders'' ''ship'' = None
   \<and> require_permission ''orders'' ''ship'' 1 user8 sample_db = Inl (invalid_role 99)
   \<and> status_code (invalid_role 99) = 403
   \<and> \<not> is_ConfigurationError (invalid_role 99)"
proof -
  have "permission_query sample_db ''orders'' ''ship'' = None"
    by (simp add: query_defs sample_defs)
  moreover have "require_permission ''orders'' ''ship'' 1 user8 sample_db = Inl (invalid_role 99)"
    by (simp add: require_permission_def permission_checker_def role_mapping_def user8_def)
  moreover have "status_code (invalid_role 99) = 403 \<and> \<not> is_ConfigurationError (invalid_role 99)"
    by (simp add: invalid_role_def is_ConfigurationError_def HTTP_403_FORBIDDEN_def)
  ultimately show ?thesis
    by (simp add: resolve_t8)
qed

text \<open>
  C6. \<open>get_current_user\<close> fails with Unauthenticated (401) when the token does not
  decode, when the payload carries no principal id, or when no principal has the decoded
  id; it fails with Forbidden (403, inactive) when the principal found is not active; and
  it returns a principal exactly when the token decodes to the id of that principal and
  the principal is active.
\<close>

theorem get_current_user_outcomes:
  "(decode token = Inl JWTError \<longrightarrow>
      get_current_user decode db token = Inl credentials_exception)
   \<and> (\<forall>payload. decode token = Inr payload \<and> payload ''sub'' = None \<longrightarrow>
         get_current_user decode db token = Inl credentials_exception)
   \<and> (\<forall>payload user_id.
         decode token = Inr payload \<and> payload ''sub'' = Some user_id
         \<and> user_query db user_id = None \<longrightarrow>
         get_current_user decode db token = Inl credentials_exception)
   \<and> (\<forall>payload user_id user.
         decode token = Inr payload \<and> payload ''sub'' = Some user_id
         \<and> user_query db user_id = Some user \<and> \<not> User_is_active user \<longrightarrow>
         get_current_user decode db token = Inl inactive_user)
   \<and> (\<forall>user.
         get_current_user decode db token = Inr user \<longleftrightarrow>
         (\<exists>payload user_id.
            decode token = Inr payload \<and> payload ''sub'' = Some user_id
            \<and> user_query db user_id = Some user \<and> User_is_active user))
   \<and> is_Unauthenticated credentials_exception
   \<and> is_Forbidden inactive_user"
proof -
  have kinds: "is_Unauthenticated credentials_exception \<and> is_Forbidden inactive_user"
    by (simp add: is_Unauthenticated_def is_Forbidden_def credentials_exception_def
        inactive_user_def HTTP_401_UNAUTHORIZED_def HTTP_403_FORBIDDEN_def)
  show ?thesis
  proof (cases "decode token")
    case (Inl err)
    then show ?thesis
      using kinds by (cases err) (simp add: get_current_user_def)
  next
    case (Inr payload)
    then show ?thesis
      using kinds by (auto simp: get_current_user_def split: option.splits)
  qed
qed

theorem get_current_user_outcomes_witness:
  "sample_decode ''garbage'' = Inl JWTError
   \<and> get_current_user sample_decode sample_db ''garbage'' = Inl credentials_exception
   \<and> sample_decode ''nosub'' = Inr [''exp'' \<mapsto> 0] \<and> [''exp'' \<mapsto> (0::int)] ''sub'' = None
   \<and> get_current_user sample_decode sample_db ''nosub'' = Inl credentials_exception
   \<and> sample_decode ''t99'' = Inr [''sub'' \<mapsto> 99] \<and> user_query sample_db 99 = None
   \<and> get_current_user sample_decode sample_db ''t99'' = Inl credentials_exception
   \<and> sample_decode ''t10'' = Inr [''sub'' \<mapsto> 10] \<and> user_query sample_db 10 = Some user10
   \<and> \<not> User_is_active user10
   \<and> get_current_user sample_decode sample_db ''t10'' = Inl inactive_user
   \<and> sample_decode ''t7'' = Inr [''sub'' \<mapsto> 7] \<and> user_query sample_db 7 = Some user7
   \<and> User_is_active user7
   \<and> get_current_user sample_decode sample_db ''t7'' = Inr user7
   \<and> status_code credentials_exception = 401
   \<and> status_code inactive_user = 403"
proof -
  have garbage: "sample_decode ''garbage'' = Inl JWTError"
    by (simp add: sample_decode_def)
  have nosub: "sample_decode ''nosub'' = Inr [''exp'' \<mapsto> 0] \<and> [''exp'' \<mapsto> (0::int)] ''sub'' = None"
    by (simp add: sample_decode_def)
  have t99: "sample_decode ''t99'' = Inr [''sub'' \<mapsto> 99] \<and> [''sub'' \<mapsto> (99::int)] ''sub'' = Some 99
             \<and> user_query sample_db 99 = None"
    by (simp add: sample_decode_def query_defs sample_db_def user7_def user8_def user9_def
        user10_def user11_def user12_def)
  have t10: "sample_decode ''t10'' = Inr [''sub'' \<mapsto> 10] \<and> [''sub'' \<mapsto> (10::int)] ''sub'' = Some 10
             \<and> user_query sample_db 10 = Some user10 \<and> \<not> User_is_active user10"
    by (simp add: sample_decode_def query_defs sample_db_def user7_def user8_def user9_def
        user10_def user11_def user12_def)
  have t7: "sample_decode ''t7'' = Inr [''sub'' \<mapsto> 7] \<and> [''sub'' \<mapsto> (7::int)] ''sub'' = Some 7
            \<and> user_query sample_db 7 = Some user7 \<and> User_is_active user7"
    by (simp add: sample_decode_def query_defs sample_db_def user7_def user8_def user9_def
        user10_def user11_def user12_def)
  have "get_current_user sample_decode sample_db ''garbage'' = Inl credentials_exception"
    using get_current_user_outcomes [of sample_decode "''garbage''" sample_db] garbage
    by blast
  moreover have "get_current_user sample_decode sample_db ''nosub'' = Inl credentials_exception"
    using get_current_user_outcomes [of sample_decode "''nosub''" sample_db] nosub
    by blast
  moreover have "get_current_user sample_decode sample_db ''t99'' = Inl credentials_exception"
    using get_current_user_outcomes [of sample_decode "''t99''" sample_db] t99
    by blast
  moreover have "get_current_user sample_decode sample_db ''t10'' = Inl inactive_user"
    using get_current_user_outcomes [of sample_decode "''t10''" sample_db] t10
    by blast
  moreover have "get_current_user sample_decode sample_db ''t7'' = Inr user7"
    using get_current_user_outcomes [of sample_decode "''t7''" sample_db] t7
    by blast
  moreover have "status_code credentials_exception = 401 \<and> status_code inactive_user = 403"
    using get_current_user_outcomes [of sample_decode "''t7''" sample_db]
    by (simp add: is_Unauthenticated_def is_Forbidden_def)
  ultimately show ?thesis
    using garbage nosub t99 t10 t7 by simp
qed

text \<open>
  C7. The claim is that \<open>get_optional_current_user\<close> never fails, for every token, the
  absent one included. The code fails at the absent token: for a request without an
  \<open>Authorization\<close> header \<open>oauth2_scheme\<close> raises 401 before the body runs, and the
  exception reaches the caller. With a bearer header, whatever the token, the resolver
  returns.
\<close>

theorem get_optional_current_user_absent_token:
  "get_optional_current_user decode db None = Inl not_authenticated
   \<and> status_code not_authenticated = 401
   \<and> is_Unauthenticated not_authenticated
   \<and> (\<exists>result. get_optional_current_user decode db (Some (''Bearer '' @ t)) = Inr result)"
proof -
  have absent: "get_optional_current_user decode db None = Inl not_authenticated"
    by (simp add: get_optional_current_user_def oauth2_scheme_def OAuth2PasswordBearer_def)
  have status: "status_code not_authenticated = 401 \<and> is_Unauthenticated not_authenticated"
    by (simp add: not_authenticated_def is_Unauthenticated_def HTTP_401_UNAUTHORIZED_def)
  have bearer: "\<exists>result. get_optional_current_user decode db (Some (''Bearer '' @ t)) = Inr result"
    using oauth2_scheme_Bearer [of t]
    by (cases "get_current_user decode db t") (simp_all add: get_optional_current_user_def)
  from absent status bearer show ?thesis
    by blast
qed



text \<open>
  The hypothesis on the queries is needed: with \<open>consuming_queries\<close>, whose last query
  empties the table it read, the first run of a Check accepts user 7 and the second run,
  on the state the first one left, rejects the same user.
\<close>

lemma consuming_queries_not_repeatable:
  "run_check consuming_queries (Permission_Check ''invoices'' ''update'' 2) user7 sample_db
     = (Inr user7, sample_db\<lparr>permission_template_items := []\<rparr>)
   \<and> run_check consuming_queries (Permission_Check ''invoices'' ''update'' 2) user7
       (sample_db\<lparr>permission_template_items := []\<rparr>)
     = (Inl (role_lacks_permission ''Manager'' ''invoices'' ''update''),
        sample_db\<lparr>permission_template_items := []\<rparr>)"
  by (simp add: permission_checker_on_def consuming_queries_def table_queries_def
      role_mapping_def query_defs sample_defs)

text \<open>
  C9, as the code has it. The Role Gate has no lower bound on the role: a resolved active
  principal whose role is below 1 is accepted by every Role Gate Check whose
  \<open>minimum_role\<close> is not below that role, hence by the four presets, \<open>require_role 1\<close>
  included; every Check built by \<open>require_permission\<close> rejects the same principal at the
  role mapping step.
\<close>

theorem role_below_one:
  assumes "get_current_user decode db token = Inr u"
    and "User_role u < 1"
  shows "(\<forall>minimum_role. User_role u \<le> minimum_role \<longrightarrow> require_role minimum_role u = Inr u)
       \<and> require_admin u = Inr u \<and> require_manager u = Inr u
       \<and> require_employee u = Inr u \<and> require_any_user u = Inr u
       \<and> role_mapping (User_role u) = None
       \<and> (\<forall>entity action min_level.
            require_permission entity action min_level u db = Inl (invalid_role (User_role u)))"
  using assms(2)
  by (simp add: require_role_def role_checker_def require_admin_def require_manager_def
      require_employee_def require_any_user_def require_permission_def permission_checker_def
      role_mapping_def)

theorem role_below_one_witness:
  "get_current_user sample_decode sample_db ''t11'' = Inr user11
   \<and> User_role user11 < 1
   \<and> User_role user11 \<le> 0
   \<and> require_role 0 user11 = Inr user11
   \<and> require_admin user11 = Inr user11
   \<and> require_permission ''invoices'' ''update'' 1 user11 sample_db = Inl (invalid_role 0)"
proof -
  have role: "User_role user11 < 1" and role': "User_role user11 \<le> 0"
    by (simp_all add: user11_def)
  from role_below_one [OF resolve_t11 role] role' resolve_t11 role
  show ?thesis
    by (simp add: user11_def)
qed

text \<open>
  C9 as written fails: user 11 has role 0, and the Role Gate Check built with
  \<open>minimum_role = -1\<close> rejects it.
\<close>

theorem role_below_one_rejected_counterexample:
  "get_current_user sample_decode sample_db ''t11'' = Inr user11
   \<and> User_role user11 < 1
   \<and> require_role (- 1) user11 = Inl (role_too_low (- 1))
   \<and> is_Forbidden (role_too_low (- 1))"
  by (simp add: resolve_t11 require_role_def role_checker_def user11_def role_too_low_def
      is_Forbidden_def HTTP_403_FORBIDDEN_def)

end
